theory Spec2Isabelle
  imports Main
begin

section \<open>Asynchronous computations with exceptions over an observable world\<close>

text \<open>
  The services of MediVault are \<^verbatim>\<open>async\<close> TypeScript functions that call the
  platform (biometric sensor, secure store, identity backend), may throw, and catch what
  the platform throws. A call is modelled as a function from the world before the call
  to its outcome (\<open>Inl\<close> a thrown value, \<open>Inr\<close> a returned one) and the world after it.

  The world holds what persists between calls, the secure key-value store, and a trace
  of every call made to an external collaborator, in order, so that "the prompt was
  never invoked" and "the store was read before the prompt" are statements about the
  trace.
\<close>

text \<open>
  A thrown JavaScript value (\<^verbatim>\<open>catch (error: any)\<close>): \<open>Nullish\<close> is \<^verbatim>\<open>null\<close> or
  \<^verbatim>\<open>undefined\<close>; \<open>JsError m c\<close> is an object with the properties \<^verbatim>\<open>message\<close> and
  \<^verbatim>\<open>code\<close>, either of which may be undefined. \<^verbatim>\<open>new Error(m)\<close> is
  \<open>JsError (Some m) None\<close>.
\<close>

datatype js_error = Nullish | JsError "string option" "string option"

text \<open>The options object handed to \<^verbatim>\<open>LocalAuthentication.authenticateAsync\<close>.\<close>

record auth_options =
  promptMessage :: string
  cancelLabel :: string
  disableDeviceFallback :: bool
  fallbackLabel :: string

datatype event =
    HasHardwareCall
  | IsEnrolledCall
  | SupportedTypesCall
  | AuthenticateCall auth_options
  | GetItem string
  | SetItem string string
  | DeleteItem string
  | CreateUserCall string string
  | UpdateProfileCall string string
  | ConfigureCall
  | HasPlayServicesCall
  | GoogleSignInCall
  | SignInWithCredentialCall string

record world =
  secure_store :: "string \<rightharpoonup> string"
  trace :: "event list"

type_synonym 'a async = "world \<Rightarrow> (js_error + 'a) \<times> world"

definition returnA :: "'a \<Rightarrow> 'a async" where
  "returnA x w = (Inr x, w)"

definition throwA :: "js_error \<Rightarrow> 'a async" where
  "throwA e w = (Inl e, w)"

text \<open>\<^verbatim>\<open>const x = await m; f(x)\<close>: a throw of \<open>m\<close> skips the rest.\<close>

definition awaitA :: "'a async \<Rightarrow> ('a \<Rightarrow> 'b async) \<Rightarrow> 'b async" where
  "awaitA m f w = (case m w of (Inl e, w') \<Rightarrow> (Inl e, w') | (Inr x, w') \<Rightarrow> f x w')"

text \<open>\<^verbatim>\<open>try { m } catch (error) { h(error) }\<close>: the handler runs in the world the
  failed body left behind.\<close>

definition tryCatch :: "'a async \<Rightarrow> (js_error \<Rightarrow> 'a async) \<Rightarrow> 'a async" where
  "tryCatch m h w = (case m w of (Inl e, w') \<Rightarrow> h e w' | (Inr x, w') \<Rightarrow> (Inr x, w'))"

definition logE :: "event \<Rightarrow> world \<Rightarrow> world" where
  "logE ev w = w\<lparr>trace := trace w @ [ev]\<rparr>"

text \<open>\<^verbatim>\<open>new Error(m)\<close>.\<close>

definition newError :: "string \<Rightarrow> js_error" where
  "newError m = JsError (Some m) None"

text \<open>
  The \<^verbatim>\<open>TypeError\<close> the engine raises when property \<open>p\<close> of \<^verbatim>\<open>null\<close> or
  \<^verbatim>\<open>undefined\<close> is read. The wording of its message is the engine's; the text here
  stands for it.
\<close>

definition typeError :: "string \<Rightarrow> js_error" where
  "typeError p = JsError (Some (''Cannot read property '' @ p @ '' of null'')) None"

text \<open>\<^verbatim>\<open>error.message\<close> and \<^verbatim>\<open>error.code\<close>: reading a property of a nullish value
  throws.\<close>

fun messageOf :: "js_error \<Rightarrow> js_error + string option" where
  "messageOf Nullish = Inl (typeError ''message'')"
| "messageOf (JsError m c) = Inr m"

fun codeOf :: "js_error \<Rightarrow> js_error + string option" where
  "codeOf Nullish = Inl (typeError ''code'')"
| "codeOf (JsError m c) = Inr c"

definition readMessage :: "js_error \<Rightarrow> string option async" where
  "readMessage e w = (messageOf e, w)"

definition readCode :: "js_error \<Rightarrow> string option async" where
  "readCode e w = (codeOf e, w)"

text \<open>JavaScript's \<^verbatim>\<open>s || d\<close> on an optional string: undefined and the empty string
  are both falsy.\<close>

definition orElse :: "string option \<Rightarrow> string \<Rightarrow> string" where
  "orElse s d = (case s of None \<Rightarrow> d | Some v \<Rightarrow> if v = [] then d else v)"

section \<open>The platform: biometric sensor and secure store\<close>

text \<open>
  \<^verbatim>\<open>expo-local-authentication\<close> and \<^verbatim>\<open>expo-secure-store\<close> are external. A
  \<open>platform\<close> value fixes how they behave while one service operation runs: what each
  sensor query answers or throws, and for which keys a store operation throws. A store
  operation that does not throw acts on the key-value map: \<^verbatim>\<open>getItemAsync\<close> yields
  the value or null, \<^verbatim>\<open>setItemAsync\<close> binds the key, \<^verbatim>\<open>deleteItemAsync\<close> unbinds
  it and succeeds on an absent key.
\<close>

text \<open>\<^verbatim>\<open>LocalAuthentication.AuthenticationType\<close>; \<open>OTHER_TYPE\<close> stands for any value
  the \<^verbatim>\<open>switch\<close> of \<^verbatim>\<open>getSupportedBiometricTypes\<close> has no case for.\<close>

datatype AuthenticationType = FINGERPRINT | FACIAL_RECOGNITION | IRIS | OTHER_TYPE

text \<open>\<^verbatim>\<open>LocalAuthenticationResult\<close>: \<^verbatim>\<open>{success: true}\<close> or
  \<^verbatim>\<open>{success: false, error}\<close>.\<close>

datatype LocalAuthenticationResult = AuthSuccess | AuthFailure string

record platform =
  hw_response :: "js_error + bool"
  enrolled_response :: "js_error + bool"
  types_response :: "js_error + AuthenticationType list"
  auth_response :: "js_error + LocalAuthenticationResult"
  get_fault :: "string \<Rightarrow> js_error option"
  set_fault :: "string \<Rightarrow> js_error option"
  del_fault :: "string \<Rightarrow> js_error option"

definition LA_hasHardwareAsync :: "platform \<Rightarrow> bool async" where
  "LA_hasHardwareAsync pf w = (hw_response pf, logE HasHardwareCall w)"

definition LA_isEnrolledAsync :: "platform \<Rightarrow> bool async" where
  "LA_isEnrolledAsync pf w = (enrolled_response pf, logE IsEnrolledCall w)"

definition LA_supportedAuthenticationTypesAsync :: "platform \<Rightarrow> AuthenticationType list async" where
  "LA_supportedAuthenticationTypesAsync pf w = (types_response pf, logE SupportedTypesCall w)"

definition LA_authenticateAsync :: "platform \<Rightarrow> auth_options \<Rightarrow> LocalAuthenticationResult async" where
  "LA_authenticateAsync pf opts w = (auth_response pf, logE (AuthenticateCall opts) w)"

definition SS_getItemAsync :: "platform \<Rightarrow> string \<Rightarrow> string option async" where
  "SS_getItemAsync pf k w =
     (case get_fault pf k of
        Some e \<Rightarrow> (Inl e, logE (GetItem k) w)
      | None \<Rightarrow> (Inr (secure_store w k), logE (GetItem k) w))"

definition SS_setItemAsync :: "platform \<Rightarrow> string \<Rightarrow> string \<Rightarrow> unit async" where
  "SS_setItemAsync pf k v w =
     (case set_fault pf k of
        Some e \<Rightarrow> (Inl e, logE (SetItem k v) w)
      | None \<Rightarrow> (Inr (), logE (SetItem k v) (w\<lparr>secure_store := (secure_store w)(k \<mapsto> v)\<rparr>)))"

definition SS_deleteItemAsync :: "platform \<Rightarrow> string \<Rightarrow> unit async" where
  "SS_deleteItemAsync pf k w =
     (case del_fault pf k of
        Some e \<Rightarrow> (Inl e, logE (DeleteItem k) w)
      | None \<Rightarrow> (Inr (), logE (DeleteItem k) (w\<lparr>secure_store := (secure_store w)(k := None)\<rparr>)))"

section \<open>biometricService.ts\<close>

definition BIOMETRIC_ENABLED_KEY :: string where
  "BIOMETRIC_ENABLED_KEY = ''medivault_biometric_enabled''"

definition STORED_EMAIL_KEY :: string where
  "STORED_EMAIL_KEY = ''medivault_stored_email''"

definition STORED_PASSWORD_KEY :: string where
  "STORED_PASSWORD_KEY = ''medivault_stored_password''"

datatype BiometricType = Fingerprint | Facial | Iris | NoneType

text \<open>The \<^verbatim>\<open>credentials\<close> object \<^verbatim>\<open>{email, password}\<close>.\<close>

record credentials =
  cred_email :: string
  cred_password :: string

record BiometricAuthResult =
  success :: bool
  error :: "string option"
  credentials :: "credentials option"

definition hasHardwareAsync :: "platform \<Rightarrow> bool async" where
  "hasHardwareAsync pf = tryCatch (LA_hasHardwareAsync pf) (\<lambda>e. returnA False)"

definition isEnrolledAsync :: "platform \<Rightarrow> bool async" where
  "isEnrolledAsync pf = tryCatch (LA_isEnrolledAsync pf) (\<lambda>e. returnA False)"

text \<open>The \<^verbatim>\<open>forEach\<close> with its \<^verbatim>\<open>switch\<close>: each recognised type pushes one entry,
  any other type pushes none.\<close>

primrec pushTypes :: "AuthenticationType list \<Rightarrow> BiometricType list" where
  "pushTypes [] = []"
| "pushTypes (t # ts) =
     (case t of
        FINGERPRINT \<Rightarrow> [Fingerprint]
      | FACIAL_RECOGNITION \<Rightarrow> [Facial]
      | IRIS \<Rightarrow> [Iris]
      | OTHER_TYPE \<Rightarrow> []) @ pushTypes ts"

definition getSupportedBiometricTypes :: "platform \<Rightarrow> BiometricType list async" where
  "getSupportedBiometricTypes pf =
     tryCatch
       (awaitA (LA_supportedAuthenticationTypesAsync pf) (\<lambda>types.
          let biometricTypes = pushTypes types in
          returnA (if length biometricTypes > 0 then biometricTypes else [NoneType])))
       (\<lambda>e. returnA [NoneType])"

definition getBiometricTypeName :: "platform \<Rightarrow> string async" where
  "getBiometricTypeName pf =
     awaitA (getSupportedBiometricTypes pf) (\<lambda>types.
       returnA (if Facial \<in> set types then ''Face ID''
                else if Fingerprint \<in> set types then ''Fingerprint''
                else if Iris \<in> set types then ''Iris''
                else ''Biometric''))"

definition isBiometricAvailable :: "platform \<Rightarrow> bool async" where
  "isBiometricAvailable pf =
     awaitA (hasHardwareAsync pf) (\<lambda>hasHardware.
     awaitA (isEnrolledAsync pf) (\<lambda>isEnrolled.
       returnA (hasHardware \<and> isEnrolled)))"

definition isBiometricEnabled :: "platform \<Rightarrow> bool async" where
  "isBiometricEnabled pf =
     tryCatch
       (awaitA (SS_getItemAsync pf BIOMETRIC_ENABLED_KEY) (\<lambda>enabled.
          returnA (enabled = Some ''true'')))
       (\<lambda>e. returnA False)"

definition clearStoredCredentials :: "platform \<Rightarrow> unit async" where
  "clearStoredCredentials pf =
     tryCatch
       (awaitA (SS_deleteItemAsync pf STORED_EMAIL_KEY) (\<lambda>_.
          SS_deleteItemAsync pf STORED_PASSWORD_KEY))
       (\<lambda>e. returnA ())"

definition setBiometricEnabled :: "platform \<Rightarrow> bool \<Rightarrow> unit async" where
  "setBiometricEnabled pf enabled =
     tryCatch
       (if enabled then SS_setItemAsync pf BIOMETRIC_ENABLED_KEY ''true''
        else awaitA (SS_deleteItemAsync pf BIOMETRIC_ENABLED_KEY) (\<lambda>_.
               clearStoredCredentials pf))
       (\<lambda>e. throwA (newError ''Failed to update biometric settings''))"

definition storeCredentials :: "platform \<Rightarrow> string \<Rightarrow> string \<Rightarrow> unit async" where
  "storeCredentials pf email password =
     tryCatch
       (awaitA (SS_setItemAsync pf STORED_EMAIL_KEY email) (\<lambda>_.
          SS_setItemAsync pf STORED_PASSWORD_KEY password))
       (\<lambda>e. throwA (newError ''Failed to store credentials securely''))"

text \<open>\<^verbatim>\<open>if (email && password)\<close>: null and the empty string are both falsy.\<close>

definition truthy :: "string option \<Rightarrow> bool" where
  "truthy s = (case s of None \<Rightarrow> False | Some v \<Rightarrow> v \<noteq> [])"

definition getStoredCredentials :: "platform \<Rightarrow> credentials option async" where
  "getStoredCredentials pf =
     tryCatch
       (awaitA (SS_getItemAsync pf STORED_EMAIL_KEY) (\<lambda>email.
        awaitA (SS_getItemAsync pf STORED_PASSWORD_KEY) (\<lambda>password.
          case (email, password) of
            (Some e, Some p) \<Rightarrow>
              if truthy email \<and> truthy password
              then returnA (Some \<lparr>cred_email = e, cred_password = p\<rparr>)
              else returnA None
          | _ \<Rightarrow> returnA None)))
       (\<lambda>e. returnA None)"

definition hasStoredCredentials :: "platform \<Rightarrow> bool async" where
  "hasStoredCredentials pf =
     awaitA (getStoredCredentials pf) (\<lambda>creds. returnA (creds \<noteq> None))"

text \<open>The \<^verbatim>\<open>switch (result.error)\<close> of a failed prompt.\<close>

definition promptErrorMessage :: "string \<Rightarrow> string" where
  "promptErrorMessage err =
     (if err = ''system_cancel'' then ''Authentication was cancelled by the system''
      else if err = ''app_cancel'' then ''Authentication was cancelled''
      else if err = ''authentication_failed'' then ''Authentication failed. Please try again.''
      else if err = ''not_enrolled'' then ''No biometrics enrolled on this device''
      else if err = ''not_available'' then ''Biometric authentication is not available''
      else if err = ''passcode_not_set'' then ''Device passcode is not set''
      else if err = ''timeout'' then ''Authentication timed out. Please try again.''
      else ''Biometric authentication failed'')"

definition authenticateWithBiometrics :: "platform \<Rightarrow> string option \<Rightarrow> BiometricAuthResult async" where
  "authenticateWithBiometrics pf promptMsg =
     tryCatch
       (awaitA (isBiometricAvailable pf) (\<lambda>isAvailable.
          if \<not> isAvailable then
            returnA \<lparr>success = False,
                     error = Some ''Biometric authentication is not available on this device'',
                     credentials = None\<rparr>
          else
        awaitA (isBiometricEnabled pf) (\<lambda>isEnabled.
          if \<not> isEnabled then
            returnA \<lparr>success = False,
                     error = Some ''Biometric login is not enabled'',
                     credentials = None\<rparr>
          else
        awaitA (getStoredCredentials pf) (\<lambda>creds.
          case creds of
            None \<Rightarrow>
              returnA \<lparr>success = False,
                       error = Some ''No stored credentials found. Please log in with your password first.'',
                       credentials = None\<rparr>
          | Some c \<Rightarrow>
        awaitA (getBiometricTypeName pf) (\<lambda>biometricName.
        awaitA (LA_authenticateAsync pf
                  \<lparr>promptMessage = orElse promptMsg (''Login to MediVault with '' @ biometricName),
                   cancelLabel = ''Cancel'',
                   disableDeviceFallback = False,
                   fallbackLabel = ''Use Password''\<rparr>) (\<lambda>result.
          case result of
            AuthSuccess \<Rightarrow>
              returnA \<lparr>success = True, error = None, credentials = Some c\<rparr>
          | AuthFailure err \<Rightarrow>
              returnA \<lparr>success = False,
                       error = Some (promptErrorMessage err),
                       credentials = None\<rparr>))))))
       (\<lambda>e. awaitA (readMessage e) (\<lambda>message.
              returnA \<lparr>success = False,
                       error = Some (orElse message ''An unexpected error occurred''),
                       credentials = None\<rparr>))"

definition setupBiometricLogin :: "platform \<Rightarrow> string \<Rightarrow> string \<Rightarrow> unit async" where
  "setupBiometricLogin pf email password =
     tryCatch
       (awaitA (storeCredentials pf email password) (\<lambda>_.
          setBiometricEnabled pf True))
       (\<lambda>e. throwA (newError ''Failed to setup biometric login''))"

definition disableBiometricLogin :: "platform \<Rightarrow> unit async" where
  "disableBiometricLogin pf =
     tryCatch
       (awaitA (setBiometricEnabled pf False) (\<lambda>_.
          clearStoredCredentials pf))
       (\<lambda>e. throwA (newError ''Failed to disable biometric login''))"

definition canUseBiometricLogin :: "platform \<Rightarrow> bool async" where
  "canUseBiometricLogin pf =
     awaitA (isBiometricAvailable pf) (\<lambda>isAvailable.
     awaitA (isBiometricEnabled pf) (\<lambda>isEnabled.
     awaitA (hasStoredCredentials pf) (\<lambda>hasCredentials.
       returnA (isAvailable \<and> isEnabled \<and> hasCredentials))))"

section \<open>firebaseAuthService.ts\<close>

text \<open>
  The identity backend (\<^verbatim>\<open>firebase/auth\<close>) and the Google Sign-In module are
  external. A \<open>firebase\<close> value fixes what each backend call answers or throws;
  \<^verbatim>\<open>updateProfile\<close> mutates the user object it is given, so its answer is the user
  after the update. Every call is recorded in the trace.
\<close>

text \<open>The fields of the backend's \<^verbatim>\<open>User\<close> that the service reads.\<close>

record User =
  user_uid :: string
  user_email :: "string option"
  user_displayName :: "string option"
  user_photoURL :: "string option"
  user_emailVerified :: bool

record AuthUser =
  uid :: string
  email :: "string option"
  displayName :: "string option"
  photoURL :: "string option"
  emailVerified :: bool

record SignUpData =
  su_email :: string
  su_password :: string
  su_displayName :: "string option"

record firebase =
  createUser_response :: "string \<Rightarrow> string \<Rightarrow> js_error + User"
  updateProfile_response :: "User \<Rightarrow> string \<Rightarrow> js_error + User"
  signInWithCredential_response :: "string \<Rightarrow> js_error + User"

definition FB_createUserWithEmailAndPassword :: "firebase \<Rightarrow> string \<Rightarrow> string \<Rightarrow> User async" where
  "FB_createUserWithEmailAndPassword fb em pw w =
     (createUser_response fb em pw, logE (CreateUserCall em pw) w)"

definition FB_updateProfile :: "firebase \<Rightarrow> User \<Rightarrow> string \<Rightarrow> User async" where
  "FB_updateProfile fb u name w =
     (updateProfile_response fb u name, logE (UpdateProfileCall (user_uid u) name) w)"

definition FB_signInWithCredential :: "firebase \<Rightarrow> string \<Rightarrow> User async" where
  "FB_signInWithCredential fb token w =
     (signInWithCredential_response fb token, logE (SignInWithCredentialCall token) w)"

text \<open>The object \<^verbatim>\<open>GoogleSignin\<close> of the module: whether \<^verbatim>\<open>configure\<close> throws, and
  what \<^verbatim>\<open>hasPlayServices\<close> and \<^verbatim>\<open>signIn\<close> answer; of the sign-in result the
  service reads only \<^verbatim>\<open>data?.idToken\<close>.\<close>

record GoogleSigninApi =
  configure_response :: "js_error option"
  hasPlayServices_response :: "js_error + bool"
  signIn_response :: "js_error + string option"

record StatusCodes =
  SIGN_IN_CANCELLED :: string
  IN_PROGRESS :: string
  PLAY_SERVICES_NOT_AVAILABLE :: string

text \<open>What \<^verbatim>\<open>require('@react-native-google-signin/google-signin')\<close> yields when it
  does not throw; an export may be missing.\<close>

record GoogleSignInModule =
  mod_GoogleSignin :: "GoogleSigninApi option"
  mod_statusCodes :: "StatusCodes option"

text \<open>The three module-level variables of the service.\<close>

record module_state =
  GoogleSignin :: "GoogleSigninApi option"
  statusCodes :: "StatusCodes option"
  googleSignInAvailable :: bool

definition G_hasPlayServices :: "GoogleSigninApi \<Rightarrow> bool async" where
  "G_hasPlayServices api w = (hasPlayServices_response api, logE HasPlayServicesCall w)"

definition G_signIn :: "GoogleSigninApi \<Rightarrow> string option async" where
  "G_signIn api w = (signIn_response api, logE GoogleSignInCall w)"

text \<open>
  The module-level \<^verbatim>\<open>try\<close> block run once when the service is loaded. The argument is
  the outcome of \<^verbatim>\<open>require\<close>: \<open>None\<close> when it throws. The three assignments
  precede \<^verbatim>\<open>GoogleSignin.configure\<close>, so a throw of \<^verbatim>\<open>configure\<close> (or a missing
  \<^verbatim>\<open>GoogleSignin\<close> export) leaves them in place; the \<^verbatim>\<open>catch\<close> only logs.
\<close>

definition loadGoogleSignIn :: "GoogleSignInModule option \<Rightarrow> world \<Rightarrow> module_state \<times> world" where
  "loadGoogleSignIn req w =
     (case req of
        None \<Rightarrow>
          (\<lparr>GoogleSignin = None, statusCodes = None, googleSignInAvailable = False\<rparr>, w)
      | Some m \<Rightarrow>
          (\<lparr>GoogleSignin = mod_GoogleSignin m, statusCodes = mod_statusCodes m,
            googleSignInAvailable = True\<rparr>,
           (case mod_GoogleSignin m of None \<Rightarrow> w | Some api \<Rightarrow> logE ConfigureCall w)))"

definition mapFirebaseUser :: "User \<Rightarrow> AuthUser" where
  "mapFirebaseUser u =
     \<lparr>uid = user_uid u, email = user_email u, displayName = user_displayName u,
      photoURL = user_photoURL u, emailVerified = user_emailVerified u\<rparr>"

definition errorMessages :: "(string \<times> string) list" where
  "errorMessages =
     [(''auth/email-already-in-use'', ''This email is already registered. Please sign in instead.''),
      (''auth/invalid-email'', ''Please enter a valid email address.''),
      (''auth/operation-not-allowed'', ''Email/password sign-in is not enabled.''),
      (''auth/weak-password'', ''Password should be at least 6 characters.''),
      (''auth/user-disabled'', ''This account has been disabled.''),
      (''auth/user-not-found'', ''No account found with this email.''),
      (''auth/wrong-password'', ''Incorrect password. Please try again.''),
      (''auth/too-many-requests'', ''Too many failed attempts. Please try again later.''),
      (''auth/network-request-failed'', ''Network error. Please check your connection.''),
      (''auth/invalid-credential'', ''Invalid credentials. Please check your email and password.''),
      (''auth/account-exists-with-different-credential'',
       ''An account already exists with the same email address but different sign-in credentials.'')]"

text \<open>
  \<^verbatim>\<open>errorMessages\<close> is a plain object, so \<^verbatim>\<open>errorMessages[errorCode]\<close> also finds
  what the object inherits from \<^verbatim>\<open>Object.prototype\<close>: these are its property names.
\<close>

definition objectPrototypeKeys :: "string list" where
  "objectPrototypeKeys =
     [''constructor'', ''hasOwnProperty'', ''isPrototypeOf'', ''propertyIsEnumerable'',
      ''toLocaleString'', ''toString'', ''valueOf'', ''__proto__'',
      ''__defineGetter__'', ''__defineSetter__'', ''__lookupGetter__'', ''__lookupSetter__'']"

text \<open>What \<^verbatim>\<open>getAuthErrorMessage\<close> can return: a string, or the member of
  \<^verbatim>\<open>Object.prototype\<close> under the given name (a function, or for \<^verbatim>\<open>__proto__\<close> the
  prototype object), which is truthy.\<close>

datatype js_value = JsString string | ObjectPrototypeMember string

text \<open>
  \<^verbatim>\<open>errorMessages[errorCode] || fallback\<close>: an own entry wins (every entry is a
  non-empty string), then an inherited member, then the fallback. An undefined code is
  looked up as the key \<^verbatim>\<open>undefined\<close> and finds nothing.
\<close>

definition getAuthErrorMessage :: "string option \<Rightarrow> js_value" where
  "getAuthErrorMessage errorCode =
     (let fallback = ''An authentication error occurred. Please try again.'' in
      case errorCode of
        None \<Rightarrow> JsString fallback
      | Some c \<Rightarrow>
          (case map_of errorMessages c of
             Some m \<Rightarrow> JsString (orElse (Some m) fallback)
           | None \<Rightarrow>
               if c \<in> set objectPrototypeKeys then ObjectPrototypeMember c
               else JsString fallback))"

text \<open>
  \<^verbatim>\<open>new Error(v)\<close> converts \<open>v\<close> to a string. For a member of
  \<^verbatim>\<open>Object.prototype\<close> the wording is the engine's: the prototype object prints as
  \<^verbatim>\<open>[object Object]\<close>, a built-in function as its native-code text, for which the text
  here stands.
\<close>

definition stringOfValue :: "js_value \<Rightarrow> string" where
  "stringOfValue v =
     (case v of
        JsString s \<Rightarrow> s
      | ObjectPrototypeMember k \<Rightarrow>
          if k = ''__proto__'' then ''[object Object]''
          else ''function '' @ (if k = ''constructor'' then ''Object'' else k)
               @ ''() { [native code] }'')"

definition newErrorOf :: "js_value \<Rightarrow> js_error" where
  "newErrorOf v = JsError (Some (stringOfValue v)) None"

text \<open>One \<^verbatim>\<open>try\<close> block holds both the account creation and the display-name update;
  its \<^verbatim>\<open>catch\<close> reads \<^verbatim>\<open>error.code\<close> of whatever either of them throws and
  rethrows it mapped by that code.\<close>

definition signUp :: "firebase \<Rightarrow> SignUpData \<Rightarrow> AuthUser async" where
  "signUp fb data =
     tryCatch
       (awaitA (FB_createUserWithEmailAndPassword fb (su_email data) (su_password data)) (\<lambda>user.
          case su_displayName data of
            Some name \<Rightarrow>
              if truthy (su_displayName data)
              then awaitA (FB_updateProfile fb user name) (\<lambda>user'.
                     returnA (mapFirebaseUser user'))
              else returnA (mapFirebaseUser user)
          | None \<Rightarrow> returnA (mapFirebaseUser user)))
       (\<lambda>e. awaitA (readCode e) (\<lambda>code.
              throwA (newErrorOf (getAuthErrorMessage code))))"

definition isGoogleSignInAvailable :: "module_state \<Rightarrow> bool" where
  "isGoogleSignInAvailable ms = googleSignInAvailable ms"

text \<open>The \<^verbatim>\<open>catch\<close> of \<^verbatim>\<open>signInWithGoogle\<close>. \<^verbatim>\<open>statusCodes && error.code === ...\<close>
  reads \<^verbatim>\<open>error.code\<close> only when \<^verbatim>\<open>statusCodes\<close> is set; the last branch reads
  \<^verbatim>\<open>error.message\<close>.\<close>

definition googleCatch :: "module_state \<Rightarrow> js_error \<Rightarrow> AuthUser async" where
  "googleCatch ms e =
     (let generic = awaitA (readMessage e) (\<lambda>message.
                      throwA (newError (orElse message ''Failed to sign in with Google''))) in
      case statusCodes ms of
        None \<Rightarrow> generic
      | Some sc \<Rightarrow>
          awaitA (readCode e) (\<lambda>code.
            if code = Some (SIGN_IN_CANCELLED sc)
              then throwA (newError ''Google Sign-In was cancelled'')
            else if code = Some (IN_PROGRESS sc)
              then throwA (newError ''Google Sign-In is already in progress'')
            else if code = Some (PLAY_SERVICES_NOT_AVAILABLE sc)
              then throwA (newError ''Google Play Services is not available on this device'')
            else generic))"

definition signInWithGoogle :: "module_state \<Rightarrow> firebase \<Rightarrow> AuthUser async" where
  "signInWithGoogle ms fb =
     (case (googleSignInAvailable ms, GoogleSignin ms) of
        (True, Some api) \<Rightarrow>
          tryCatch
            (awaitA (G_hasPlayServices api) (\<lambda>_.
             awaitA (G_signIn api) (\<lambda>idToken.
               case idToken of
                 Some token \<Rightarrow>
                   if \<not> truthy idToken
                   then throwA (newError ''No ID token returned from Google Sign-In'')
                   else awaitA (FB_signInWithCredential fb token) (\<lambda>user.
                          returnA (mapFirebaseUser user))
               | None \<Rightarrow> throwA (newError ''No ID token returned from Google Sign-In''))))
            (googleCatch ms)
      | _ \<Rightarrow>
          throwA (newError
            (''Google Sign-In is not available. ''
             @ ''Please use a development build instead of Expo Go.'')))"

section \<open>Sample platforms and worlds\<close>

text \<open>A device with a fingerprint sensor, an enrolled finger and a store that never
  throws; the prompt succeeds.\<close>

definition working_platform :: platform where
  "working_platform =
     \<lparr>hw_response = Inr True, enrolled_response = Inr True,
      types_response = Inr [FINGERPRINT], auth_response = Inr AuthSuccess,
      get_fault = (\<lambda>k. None), set_fault = (\<lambda>k. None), del_fault = (\<lambda>k. None)\<rparr>"

definition empty_world :: world where
  "empty_world = \<lparr>secure_store = Map.empty, trace = []\<rparr>"

text \<open>A world in which biometric login has been set up for \<^verbatim>\<open>a@b.com\<close>.\<close>

definition enrolled_world :: world where
  "enrolled_world =
     \<lparr>secure_store = [BIOMETRIC_ENABLED_KEY \<mapsto> ''true'', STORED_EMAIL_KEY \<mapsto> ''a@b.com'',
                       STORED_PASSWORD_KEY \<mapsto> ''secret1''],
      trace = []\<rparr>"

definition no_hardware_platform :: platform where
  "no_hardware_platform = working_platform\<lparr>hw_response := Inr False\<rparr>"

text \<open>The query for the supported types throws.\<close>

definition types_failing_platform :: platform where
  "types_failing_platform = working_platform\<lparr>types_response := Inl (newError ''query failed'')\<rparr>"

text \<open>The keystore refuses to delete the stored email.\<close>

definition leaky_platform :: platform where
  "leaky_platform =
     working_platform\<lparr>del_fault :=
       (\<lambda>k. if k = STORED_EMAIL_KEY then Some (newError ''keystore busy'') else None)\<rparr>"

text \<open>The prompt runs and the user's finger is not recognised.\<close>

definition rejecting_platform :: platform where
  "rejecting_platform =
     working_platform\<lparr>auth_response := Inr (AuthFailure ''authentication_failed'')\<rparr>"

text \<open>The prompt rejects with \<^verbatim>\<open>null\<close>.\<close>

definition null_rejecting_platform :: platform where
  "null_rejecting_platform = working_platform\<lparr>auth_response := Inl Nullish\<rparr>"

text \<open>The prompt rejects with an object that has no message.\<close>

definition silent_rejecting_platform :: platform where
  "silent_rejecting_platform = working_platform\<lparr>auth_response := Inl (JsError None None)\<rparr>"

definition sample_user :: User where
  "sample_user =
     \<lparr>user_uid = ''u1'', user_email = Some ''a@b.com'', user_displayName = None,
      user_photoURL = None, user_emailVerified = False\<rparr>"

text \<open>A backend that creates accounts and loses the connection on every profile update.\<close>

definition flaky_backend :: firebase where
  "flaky_backend =
     \<lparr>createUser_response = (\<lambda>em pw. Inr sample_user),
      updateProfile_response =
        (\<lambda>u name. Inl (JsError (Some ''Firebase: Error (auth/network-request-failed).'')
                                 (Some ''auth/network-request-failed''))),
      signInWithCredential_response = (\<lambda>token. Inr sample_user)\<rparr>"

definition sample_signup :: SignUpData where
  "sample_signup =
     \<lparr>su_email = ''a@b.com'', su_password = ''secret1'', su_displayName = Some ''Ann''\<rparr>"

section \<open>Closed forms used in the proofs\<close>

text \<open>
  The value \<^verbatim>\<open>getStoredCredentials\<close> returns: a pair only when neither read throws and
  both stored strings are non-empty.
\<close>

definition storedPair :: "platform \<Rightarrow> world \<Rightarrow> credentials option" where
  "storedPair pf w =
     (case (get_fault pf STORED_EMAIL_KEY, get_fault pf STORED_PASSWORD_KEY,
            secure_store w STORED_EMAIL_KEY, secure_store w STORED_PASSWORD_KEY) of
        (None, None, Some e, Some p) \<Rightarrow>
          if e \<noteq> [] \<and> p \<noteq> [] then Some \<lparr>cred_email = e, cred_password = p\<rparr> else None
      | _ \<Rightarrow> None)"

text \<open>The store reads \<^verbatim>\<open>getStoredCredentials\<close> makes: a throw on the email skips the
  password.\<close>

definition credentialReads :: "platform \<Rightarrow> event list" where
  "credentialReads pf =
     (if get_fault pf STORED_EMAIL_KEY = None
      then [GetItem STORED_EMAIL_KEY, GetItem STORED_PASSWORD_KEY]
      else [GetItem STORED_EMAIL_KEY])"

text \<open>The store \<^verbatim>\<open>clearStoredCredentials\<close> leaves: a throw on the email skips the
  password, and the \<^verbatim>\<open>catch\<close> swallows either throw.\<close>

definition clearedStore :: "platform \<Rightarrow> (string \<rightharpoonup> string) \<Rightarrow> (string \<rightharpoonup> string)" where
  "clearedStore pf s =
     (if del_fault pf STORED_EMAIL_KEY = None
      then (if del_fault pf STORED_PASSWORD_KEY = None
            then s(STORED_EMAIL_KEY := None, STORED_PASSWORD_KEY := None)
            else s(STORED_EMAIL_KEY := None))
      else s)"

text \<open>The label \<^verbatim>\<open>getBiometricTypeName\<close> computes on a platform (it does not depend on
  the world), and the options \<^verbatim>\<open>authenticateWithBiometrics\<close> hands to the prompt.\<close>

definition typeName :: "platform \<Rightarrow> string" where
  "typeName pf = (case fst (getBiometricTypeName pf empty_world) of Inr n \<Rightarrow> n | Inl _ \<Rightarrow> [])"

definition promptOptions :: "platform \<Rightarrow> string option \<Rightarrow> auth_options" where
  "promptOptions pf promptMsg =
     \<lparr>promptMessage = orElse promptMsg (''Login to MediVault with '' @ typeName pf),
      cancelLabel = ''Cancel'', disableDeviceFallback = False, fallbackLabel = ''Use Password''\<rparr>"

section \<open>Each operation in closed form\<close>

lemma logE_simps [simp]:
  "secure_store (logE ev w) = secure_store w"
  "trace (logE ev w) = trace w @ [ev]"
  by (simp_all add: logE_def)

lemma keys_distinct [simp]:
  "BIOMETRIC_ENABLED_KEY \<noteq> STORED_EMAIL_KEY"
  "BIOMETRIC_ENABLED_KEY \<noteq> STORED_PASSWORD_KEY"
  "STORED_EMAIL_KEY \<noteq> STORED_PASSWORD_KEY"
  "STORED_EMAIL_KEY \<noteq> BIOMETRIC_ENABLED_KEY"
  "STORED_PASSWORD_KEY \<noteq> BIOMETRIC_ENABLED_KEY"
  "STORED_PASSWORD_KEY \<noteq> STORED_EMAIL_KEY"
  by (simp_all add: BIOMETRIC_ENABLED_KEY_def STORED_EMAIL_KEY_def STORED_PASSWORD_KEY_def)

lemma hasHardwareAsync_eq:
  "hasHardwareAsync pf w = (Inr (hw_response pf = Inr True), logE HasHardwareCall w)"
  by (cases "hw_response pf")
     (simp_all add: hasHardwareAsync_def tryCatch_def LA_hasHardwareAsync_def returnA_def)

lemma isEnrolledAsync_eq:
  "isEnrolledAsync pf w = (Inr (enrolled_response pf = Inr True), logE IsEnrolledCall w)"
  by (cases "enrolled_response pf")
     (simp_all add: isEnrolledAsync_def tryCatch_def LA_isEnrolledAsync_def returnA_def)

lemma isBiometricAvailable_eq:
  "isBiometricAvailable pf w =
     (Inr (hw_response pf = Inr True \<and> enrolled_response pf = Inr True),
      logE IsEnrolledCall (logE HasHardwareCall w))"
  by (simp add: isBiometricAvailable_def awaitA_def hasHardwareAsync_eq isEnrolledAsync_eq returnA_def)

lemma isBiometricEnabled_eq:
  "isBiometricEnabled pf w =
     (Inr (get_fault pf BIOMETRIC_ENABLED_KEY = None
           \<and> secure_store w BIOMETRIC_ENABLED_KEY = Some ''true''),
      logE (GetItem BIOMETRIC_ENABLED_KEY) w)"
  by (cases "get_fault pf BIOMETRIC_ENABLED_KEY")
     (simp_all add: isBiometricEnabled_def tryCatch_def awaitA_def SS_getItemAsync_def returnA_def)

lemma getSupportedBiometricTypes_eq:
  "getSupportedBiometricTypes pf w =
     (Inr (case types_response pf of Inl _ \<Rightarrow> [NoneType]
           | Inr ts \<Rightarrow> if pushTypes ts = [] then [NoneType] else pushTypes ts),
      logE SupportedTypesCall w)"
  by (cases "types_response pf")
     (simp_all add: getSupportedBiometricTypes_def tryCatch_def awaitA_def
        LA_supportedAuthenticationTypesAsync_def returnA_def Let_def)

lemma storedPair_logE [simp]:
  "storedPair pf (logE ev w) = storedPair pf w"
  "storedPair pf (w\<lparr>trace := t\<rparr>) = storedPair pf w"
  by (simp_all add: storedPair_def)

lemma getStoredCredentials_eq:
  "getStoredCredentials pf w =
     (Inr (storedPair pf w), w\<lparr>trace := trace w @ credentialReads pf\<rparr>)"
  by (cases "get_fault pf STORED_EMAIL_KEY"; cases "get_fault pf STORED_PASSWORD_KEY";
      cases "secure_store w STORED_EMAIL_KEY"; cases "secure_store w STORED_PASSWORD_KEY")
     (simp_all add: getStoredCredentials_def tryCatch_def awaitA_def SS_getItemAsync_def
        returnA_def storedPair_def credentialReads_def truthy_def logE_def)

lemma hasStoredCredentials_eq:
  "hasStoredCredentials pf w =
     (Inr (storedPair pf w \<noteq> None), w\<lparr>trace := trace w @ credentialReads pf\<rparr>)"
  by (simp add: hasStoredCredentials_def awaitA_def getStoredCredentials_eq returnA_def)

lemma canUseBiometricLogin_eq:
  "fst (canUseBiometricLogin pf w) =
     Inr ((hw_response pf = Inr True \<and> enrolled_response pf = Inr True)
          \<and> (get_fault pf BIOMETRIC_ENABLED_KEY = None
              \<and> secure_store w BIOMETRIC_ENABLED_KEY = Some ''true'')
          \<and> storedPair pf w \<noteq> None)"
  by (simp add: canUseBiometricLogin_def awaitA_def isBiometricAvailable_eq
        isBiometricEnabled_eq hasStoredCredentials_eq returnA_def)

lemma canUseBiometricLogin_store:
  "secure_store (snd (canUseBiometricLogin pf w)) = secure_store w"
  by (simp add: canUseBiometricLogin_def awaitA_def isBiometricAvailable_eq
        isBiometricEnabled_eq hasStoredCredentials_eq returnA_def)

lemma orElse_nonempty: "d \<noteq> [] \<Longrightarrow> orElse s d \<noteq> []"
  by (simp add: orElse_def split: option.splits)

lemma promptErrorMessage_nonempty: "promptErrorMessage err \<noteq> []"
  by (simp add: promptErrorMessage_def)

lemma getBiometricTypeName_eq:
  "getBiometricTypeName pf w = (Inr (typeName pf), logE SupportedTypesCall w)"
  by (simp add: typeName_def getBiometricTypeName_def awaitA_def getSupportedBiometricTypes_eq returnA_def)

lemma authenticate_not_available:
  "\<not> (hw_response pf = Inr True \<and> enrolled_response pf = Inr True) \<Longrightarrow>
   authenticateWithBiometrics pf msg w =
     (Inr \<lparr>success = False,
           error = Some ''Biometric authentication is not available on this device'',
           credentials = None\<rparr>,
      w\<lparr>trace := trace w @ [HasHardwareCall, IsEnrolledCall]\<rparr>)"
  by (simp add: authenticateWithBiometrics_def tryCatch_def awaitA_def isBiometricAvailable_eq
        returnA_def logE_def)

lemma authenticate_not_enabled:
  "hw_response pf = Inr True \<Longrightarrow> enrolled_response pf = Inr True \<Longrightarrow>
   \<not> (get_fault pf BIOMETRIC_ENABLED_KEY = None
       \<and> secure_store w BIOMETRIC_ENABLED_KEY = Some ''true'') \<Longrightarrow>
   authenticateWithBiometrics pf msg w =
     (Inr \<lparr>success = False, error = Some ''Biometric login is not enabled'', credentials = None\<rparr>,
      w\<lparr>trace := trace w @ [HasHardwareCall, IsEnrolledCall, GetItem BIOMETRIC_ENABLED_KEY]\<rparr>)"
  by (simp add: authenticateWithBiometrics_def tryCatch_def awaitA_def isBiometricAvailable_eq
        isBiometricEnabled_eq returnA_def logE_def)

lemma authenticate_no_credentials:
  "hw_response pf = Inr True \<Longrightarrow> enrolled_response pf = Inr True \<Longrightarrow>
   get_fault pf BIOMETRIC_ENABLED_KEY = None \<Longrightarrow>
   secure_store w BIOMETRIC_ENABLED_KEY = Some ''true'' \<Longrightarrow>
   storedPair pf w = None \<Longrightarrow>
   authenticateWithBiometrics pf msg w =
     (Inr \<lparr>success = False,
           error = Some ''No stored credentials found. Please log in with your password first.'',
           credentials = None\<rparr>,
      w\<lparr>trace := trace w @ [HasHardwareCall, IsEnrolledCall, GetItem BIOMETRIC_ENABLED_KEY]
                     @ credentialReads pf\<rparr>)"
  by (simp add: authenticateWithBiometrics_def tryCatch_def awaitA_def isBiometricAvailable_eq
        isBiometricEnabled_eq getStoredCredentials_eq returnA_def logE_def)

lemma authenticate_prompted:
  "hw_response pf = Inr True \<Longrightarrow> enrolled_response pf = Inr True \<Longrightarrow>
   get_fault pf BIOMETRIC_ENABLED_KEY = None \<Longrightarrow>
   secure_store w BIOMETRIC_ENABLED_KEY = Some ''true'' \<Longrightarrow>
   storedPair pf w = Some c \<Longrightarrow>
   authenticateWithBiometrics pf msg w =
     ((case auth_response pf of
         Inr AuthSuccess \<Rightarrow> Inr \<lparr>success = True, error = None, credentials = Some c\<rparr>
       | Inr (AuthFailure err) \<Rightarrow>
           Inr \<lparr>success = False, error = Some (promptErrorMessage err), credentials = None\<rparr>
       | Inl Nullish \<Rightarrow> Inl (typeError ''message'')
       | Inl (JsError m c) \<Rightarrow>
           Inr \<lparr>success = False,
                error = Some (orElse m ''An unexpected error occurred''),
                credentials = None\<rparr>),
      w\<lparr>trace := trace w @ [HasHardwareCall, IsEnrolledCall, GetItem BIOMETRIC_ENABLED_KEY]
                     @ credentialReads pf
                     @ [SupportedTypesCall, AuthenticateCall (promptOptions pf msg)]\<rparr>)"
  by (simp add: authenticateWithBiometrics_def tryCatch_def awaitA_def isBiometricAvailable_eq
        isBiometricEnabled_eq getStoredCredentials_eq getBiometricTypeName_eq returnA_def
        LA_authenticateAsync_def logE_def promptOptions_def readMessage_def
        split: sum.splits LocalAuthenticationResult.splits js_error.splits)

lemma storeCredentials_success:
  "storeCredentials pf e p w = (Inr (), w1) \<Longrightarrow>
   secure_store w1 = (secure_store w)(STORED_EMAIL_KEY \<mapsto> e, STORED_PASSWORD_KEY \<mapsto> p)"
  by (cases "set_fault pf STORED_EMAIL_KEY"; cases "set_fault pf STORED_PASSWORD_KEY")
     (auto simp: storeCredentials_def tryCatch_def awaitA_def SS_setItemAsync_def throwA_def)

lemma setBiometricEnabled_True_success:
  "setBiometricEnabled pf True w = (Inr (), w1) \<Longrightarrow>
   secure_store w1 = (secure_store w)(BIOMETRIC_ENABLED_KEY \<mapsto> ''true'')"
  by (cases "set_fault pf BIOMETRIC_ENABLED_KEY")
     (auto simp: setBiometricEnabled_def tryCatch_def SS_setItemAsync_def throwA_def)

lemma setupBiometricLogin_success:
  assumes "setupBiometricLogin pf e p w = (Inr (), w1)"
  shows "secure_store w1 =
           (secure_store w)(STORED_EMAIL_KEY \<mapsto> e, STORED_PASSWORD_KEY \<mapsto> p,
                            BIOMETRIC_ENABLED_KEY \<mapsto> ''true'')"
proof -
  obtain r0 w0 where s: "storeCredentials pf e p w = (r0, w0)" by (cases "storeCredentials pf e p w")
  obtain r2 w2 where b: "setBiometricEnabled pf True w0 = (r2, w2)"
    by (cases "setBiometricEnabled pf True w0")
  from assms s have r0: "r0 = Inr ()"
    by (cases r0) (auto simp: setupBiometricLogin_def tryCatch_def awaitA_def throwA_def)
  from assms s b r0 have r2: "r2 = Inr ()" and w2: "w2 = w1"
    by (cases r2; auto simp: setupBiometricLogin_def tryCatch_def awaitA_def throwA_def)+
  from storeCredentials_success[OF s[unfolded r0]]
       setBiometricEnabled_True_success[OF b[unfolded r2]] w2
  show ?thesis by simp
qed

lemma setupBiometricLogin_no_faults:
  assumes "set_fault pf STORED_EMAIL_KEY = None" "set_fault pf STORED_PASSWORD_KEY = None"
    "set_fault pf BIOMETRIC_ENABLED_KEY = None"
  shows "setupBiometricLogin pf e p w =
     (Inr (), \<lparr>secure_store = (secure_store w)(STORED_EMAIL_KEY \<mapsto> e, STORED_PASSWORD_KEY \<mapsto> p,
                                 BIOMETRIC_ENABLED_KEY \<mapsto> ''true''),
               trace = trace w @ [SetItem STORED_EMAIL_KEY e, SetItem STORED_PASSWORD_KEY p,
                                  SetItem BIOMETRIC_ENABLED_KEY ''true'']\<rparr>)"
  using assms
  by (simp add: setupBiometricLogin_def storeCredentials_def setBiometricEnabled_def
        tryCatch_def awaitA_def SS_setItemAsync_def logE_def)

lemma working_platform_simps [simp]:
  "hw_response working_platform = Inr True"
  "enrolled_response working_platform = Inr True"
  "types_response working_platform = Inr [FINGERPRINT]"
  "auth_response working_platform = Inr AuthSuccess"
  "get_fault working_platform k = None"
  "set_fault working_platform k = None"
  "del_fault working_platform k = None"
  by (simp_all add: working_platform_def)

lemma clearStoredCredentials_result: "fst (clearStoredCredentials pf w) = Inr ()"
  by (cases "del_fault pf STORED_EMAIL_KEY"; cases "del_fault pf STORED_PASSWORD_KEY")
     (simp_all add: clearStoredCredentials_def tryCatch_def awaitA_def SS_deleteItemAsync_def
        returnA_def)

lemma clearStoredCredentials_store:
  "secure_store (snd (clearStoredCredentials pf w)) = clearedStore pf (secure_store w)"
  by (cases "del_fault pf STORED_EMAIL_KEY"; cases "del_fault pf STORED_PASSWORD_KEY")
     (simp_all add: clearStoredCredentials_def tryCatch_def awaitA_def SS_deleteItemAsync_def
        returnA_def clearedStore_def)

lemma clearedStore_idem: "clearedStore pf (clearedStore pf s) = clearedStore pf s"
  by (simp add: clearedStore_def)

lemma clearedStore_enabled:
  "clearedStore pf s BIOMETRIC_ENABLED_KEY = s BIOMETRIC_ENABLED_KEY"
  by (simp add: clearedStore_def)

lemma disableBiometricLogin_result:
  "fst (disableBiometricLogin pf w) =
     (if del_fault pf BIOMETRIC_ENABLED_KEY = None then Inr ()
      else Inl (newError ''Failed to disable biometric login''))"
proof (cases "del_fault pf BIOMETRIC_ENABLED_KEY")
  case None
  let ?w1 = "logE (DeleteItem BIOMETRIC_ENABLED_KEY)
               (w\<lparr>secure_store := (secure_store w)(BIOMETRIC_ENABLED_KEY := None)\<rparr>)"
  obtain w2 where c1: "clearStoredCredentials pf ?w1 = (Inr (), w2)"
    using clearStoredCredentials_result[of pf ?w1] by (cases "clearStoredCredentials pf ?w1") simp
  obtain w3 where c2: "clearStoredCredentials pf w2 = (Inr (), w3)"
    using clearStoredCredentials_result[of pf w2] by (cases "clearStoredCredentials pf w2") simp
  show ?thesis using None c1 c2
    by (simp add: disableBiometricLogin_def setBiometricEnabled_def tryCatch_def awaitA_def
          SS_deleteItemAsync_def)
next
  case (Some e)
  then show ?thesis
    by (simp add: disableBiometricLogin_def setBiometricEnabled_def tryCatch_def awaitA_def
          SS_deleteItemAsync_def throwA_def)
qed

lemma disableBiometricLogin_store:
  "secure_store (snd (disableBiometricLogin pf w)) =
     (if del_fault pf BIOMETRIC_ENABLED_KEY = None
      then clearedStore pf ((secure_store w)(BIOMETRIC_ENABLED_KEY := None))
      else secure_store w)"
proof (cases "del_fault pf BIOMETRIC_ENABLED_KEY")
  case None
  let ?w1 = "logE (DeleteItem BIOMETRIC_ENABLED_KEY)
               (w\<lparr>secure_store := (secure_store w)(BIOMETRIC_ENABLED_KEY := None)\<rparr>)"
  obtain w2 where c1: "clearStoredCredentials pf ?w1 = (Inr (), w2)"
    using clearStoredCredentials_result[of pf ?w1] by (cases "clearStoredCredentials pf ?w1") simp
  obtain w3 where c2: "clearStoredCredentials pf w2 = (Inr (), w3)"
    using clearStoredCredentials_result[of pf w2] by (cases "clearStoredCredentials pf w2") simp
  have s2: "secure_store w2 = clearedStore pf ((secure_store w)(BIOMETRIC_ENABLED_KEY := None))"
    using clearStoredCredentials_store[of pf ?w1] c1 by simp
  have s3: "secure_store w3 = clearedStore pf (secure_store w2)"
    using clearStoredCredentials_store[of pf w2] c2 by simp
  have "snd (disableBiometricLogin pf w) = w3" using None c1 c2
    by (simp add: disableBiometricLogin_def setBiometricEnabled_def tryCatch_def awaitA_def
          SS_deleteItemAsync_def)
  then show ?thesis using None s2 s3 by (simp add: clearedStore_idem)
next
  case (Some e)
  then show ?thesis
    by (simp add: disableBiometricLogin_def setBiometricEnabled_def tryCatch_def awaitA_def
          SS_deleteItemAsync_def throwA_def)
qed

lemma clearedStore_after_delete:
  "clearedStore pf ((clearedStore pf s)(BIOMETRIC_ENABLED_KEY := None)) =
   clearedStore pf (s(BIOMETRIC_ENABLED_KEY := None))"
  by (auto simp: clearedStore_def fun_upd_twist)

lemma no_hardware_platform_simps [simp]:
  "hw_response no_hardware_platform = Inr False"
  "enrolled_response no_hardware_platform = Inr True"
  "get_fault no_hardware_platform k = None"
  "del_fault no_hardware_platform k = None"
  by (simp_all add: no_hardware_platform_def working_platform_def)

lemma leaky_platform_simps [simp]:
  "hw_response leaky_platform = Inr True"
  "enrolled_response leaky_platform = Inr True"
  "get_fault leaky_platform k = None"
  "del_fault leaky_platform BIOMETRIC_ENABLED_KEY = None"
  "del_fault leaky_platform STORED_EMAIL_KEY = Some (newError ''keystore busy'')"
  by (simp_all add: leaky_platform_def working_platform_def)

lemma network_failure_message:
  "newErrorOf (getAuthErrorMessage (Some ''auth/network-request-failed'')) =
     newError ''Network error. Please check your connection.''"
  by (simp add: getAuthErrorMessage_def errorMessages_def orElse_def newErrorOf_def
        stringOfValue_def newError_def)

section \<open>The claims\<close>

subsection \<open>Enrolment, then quick login\<close>

text \<open>
  C1, as amended. Let \<open>e\<close> and \<open>p\<close> be non-empty, and let
  \<^verbatim>\<open>setupBiometricLogin(e, p)\<close> return without throwing, leaving the world \<open>w1\<close>. On
  any platform \<open>pf'\<close> on which \<^verbatim>\<open>isBiometricAvailable()\<close> holds, whose reads of the
  three keys do not throw and whose prompt reports success, \<^verbatim>\<open>canUseBiometricLogin()\<close>
  returns true and a following \<^verbatim>\<open>authenticateWithBiometrics()\<close> returns
  \<^verbatim>\<open>{success: true, credentials: {email: e, password: p}}\<close>.
\<close>

theorem enroll_then_authenticate:
  assumes "e \<noteq> []" and "p \<noteq> []"
    and "setupBiometricLogin pf e p w = (Inr (), w1)"
    and "fst (isBiometricAvailable pf' w1) = Inr True"
    and "get_fault pf' BIOMETRIC_ENABLED_KEY = None"
    and "get_fault pf' STORED_EMAIL_KEY = None"
    and "get_fault pf' STORED_PASSWORD_KEY = None"
    and "auth_response pf' = Inr AuthSuccess"
  shows "fst (canUseBiometricLogin pf' w1) = Inr True
       \<and> fst (authenticateWithBiometrics pf' msg (snd (canUseBiometricLogin pf' w1))) =
           Inr \<lparr>success = True, error = None,
                credentials = Some \<lparr>cred_email = e, cred_password = p\<rparr>\<rparr>"
proof -
  let ?w2 = "snd (canUseBiometricLogin pf' w1)"
  have st: "secure_store w1 =
      (secure_store w)(STORED_EMAIL_KEY \<mapsto> e, STORED_PASSWORD_KEY \<mapsto> p,
                       BIOMETRIC_ENABLED_KEY \<mapsto> ''true'')"
    using assms(3) by (rule setupBiometricLogin_success)
  have av: "hw_response pf' = Inr True" "enrolled_response pf' = Inr True"
    using assms(4) by (simp_all add: isBiometricAvailable_eq)
  have st2: "secure_store ?w2 = secure_store w1" by (rule canUseBiometricLogin_store)
  have sp1: "storedPair pf' w1 = Some \<lparr>cred_email = e, cred_password = p\<rparr>"
    using assms(1,2,6,7) st by (simp add: storedPair_def)
  have sp2: "storedPair pf' ?w2 = Some \<lparr>cred_email = e, cred_password = p\<rparr>"
    using assms(1,2,6,7) st st2 by (simp add: storedPair_def)
  have en2: "secure_store ?w2 BIOMETRIC_ENABLED_KEY = Some ''true''"
    using st st2 by simp
  have "fst (canUseBiometricLogin pf' w1) = Inr True"
    using av assms(5) st sp1 by (simp add: canUseBiometricLogin_eq)
  moreover have "fst (authenticateWithBiometrics pf' msg ?w2) =
      Inr \<lparr>success = True, error = None,
           credentials = Some \<lparr>cred_email = e, cred_password = p\<rparr>\<rparr>"
    using authenticate_prompted[OF av assms(5) en2 sp2, of msg] assms(8) by simp
  ultimately show ?thesis by simp
qed

theorem enroll_then_authenticate_witness:
  "fst (setupBiometricLogin working_platform ''a@b.com'' ''secret1'' empty_world) = Inr ()
   \<and> fst (canUseBiometricLogin working_platform
            (snd (setupBiometricLogin working_platform ''a@b.com'' ''secret1'' empty_world)))
       = Inr True
   \<and> fst (authenticateWithBiometrics working_platform None
            (snd (canUseBiometricLogin working_platform
               (snd (setupBiometricLogin working_platform ''a@b.com'' ''secret1'' empty_world)))))
       = Inr \<lparr>success = True, error = None,
              credentials = Some \<lparr>cred_email = ''a@b.com'', cred_password = ''secret1''\<rparr>\<rparr>"
proof -
  let ?w1 = "snd (setupBiometricLogin working_platform ''a@b.com'' ''secret1'' empty_world)"
  have r: "fst (setupBiometricLogin working_platform ''a@b.com'' ''secret1'' empty_world) = Inr ()"
    by (simp add: setupBiometricLogin_no_faults)
  then have h: "setupBiometricLogin working_platform ''a@b.com'' ''secret1'' empty_world
                  = (Inr (), ?w1)"
    by (metis prod.collapse)
  have a: "fst (isBiometricAvailable working_platform ?w1) = Inr True"
    by (simp add: isBiometricAvailable_eq)
  show ?thesis
    using r enroll_then_authenticate[OF _ _ h a, where msg = None] by simp
qed

text \<open>
  The claim without the restriction to non-empty strings fails: the empty email is stored,
  \<^verbatim>\<open>setupBiometricLogin\<close> succeeds, and \<^verbatim>\<open>if (email && password)\<close> of
  \<^verbatim>\<open>getStoredCredentials\<close> then takes the stored pair for absent.
\<close>

theorem enroll_empty_email_counterexample:
  "fst (setupBiometricLogin working_platform [] ''secret1'' empty_world) = Inr ()
   \<and> fst (isBiometricAvailable working_platform
            (snd (setupBiometricLogin working_platform [] ''secret1'' empty_world))) = Inr True
   \<and> fst (canUseBiometricLogin working_platform
            (snd (setupBiometricLogin working_platform [] ''secret1'' empty_world))) = Inr False"
  by (simp add: setupBiometricLogin_no_faults isBiometricAvailable_eq canUseBiometricLogin_eq
        storedPair_def empty_world_def)

subsection \<open>Disabling\<close>

text \<open>
  C2, as amended. Let \<^verbatim>\<open>disableBiometricLogin()\<close> return without throwing, leaving the
  world \<open>w1\<close>, whatever the store held and whether or not the credentials could be
  erased. Then on every platform \<^verbatim>\<open>canUseBiometricLogin()\<close> returns false, and
  \<^verbatim>\<open>authenticateWithBiometrics()\<close> returns a failure without credentials: with the
  message "Biometric login is not enabled" when \<^verbatim>\<open>isBiometricAvailable()\<close> holds, having
  read only the enabled key of the store, and with the message "Biometric authentication
  is not available on this device" otherwise, having read nothing of the store. In both
  cases the stored email and password are not read and the prompt is not invoked.
\<close>

theorem disable_then_authenticate:
  assumes "disableBiometricLogin pf w = (Inr (), w1)"
  shows "fst (canUseBiometricLogin pf' w1) = Inr False
       \<and> authenticateWithBiometrics pf' msg w1 =
           (if fst (isBiometricAvailable pf' w1) = Inr True
            then (Inr \<lparr>success = False, error = Some ''Biometric login is not enabled'',
                       credentials = None\<rparr>,
                  w1\<lparr>trace := trace w1 @ [HasHardwareCall, IsEnrolledCall,
                                           GetItem BIOMETRIC_ENABLED_KEY]\<rparr>)
            else (Inr \<lparr>success = False,
                       error = Some ''Biometric authentication is not available on this device'',
                       credentials = None\<rparr>,
                  w1\<lparr>trace := trace w1 @ [HasHardwareCall, IsEnrolledCall]\<rparr>))"
proof -
  have ok: "del_fault pf BIOMETRIC_ENABLED_KEY = None"
    using assms disableBiometricLogin_result[of pf w] by (simp split: if_splits)
  have none: "secure_store w1 BIOMETRIC_ENABLED_KEY = None"
    using assms ok disableBiometricLogin_store[of pf w] by (simp add: clearedStore_enabled)
  then have off: "\<not> (get_fault pf' BIOMETRIC_ENABLED_KEY = None
                     \<and> secure_store w1 BIOMETRIC_ENABLED_KEY = Some ''true'')" by simp
  have c: "fst (canUseBiometricLogin pf' w1) = Inr False"
    using none by (simp add: canUseBiometricLogin_eq)
  show ?thesis
  proof (cases "hw_response pf' = Inr True \<and> enrolled_response pf' = Inr True")
    case True
    then show ?thesis using c authenticate_not_enabled[OF _ _ off, of msg]
      by (simp add: isBiometricAvailable_eq)
  next
    case False
    then show ?thesis using c authenticate_not_available[OF False, of msg w1]
      by (simp add: isBiometricAvailable_eq)
  qed
qed

text \<open>The witness keeps the credentials in the store: the keystore refuses to delete
  the email, \<^verbatim>\<open>clearStoredCredentials\<close> swallows the throw, and the password delete
  is skipped.\<close>

theorem disable_then_authenticate_witness:
  "fst (disableBiometricLogin leaky_platform enrolled_world) = Inr ()
   \<and> secure_store (snd (disableBiometricLogin leaky_platform enrolled_world)) STORED_EMAIL_KEY
       = Some ''a@b.com''
   \<and> secure_store (snd (disableBiometricLogin leaky_platform enrolled_world)) STORED_PASSWORD_KEY
       = Some ''secret1''
   \<and> fst (canUseBiometricLogin leaky_platform
            (snd (disableBiometricLogin leaky_platform enrolled_world))) = Inr False
   \<and> fst (authenticateWithBiometrics leaky_platform None
            (snd (disableBiometricLogin leaky_platform enrolled_world))) =
       Inr \<lparr>success = False, error = Some ''Biometric login is not enabled'',
            credentials = None\<rparr>"
proof -
  let ?w1 = "snd (disableBiometricLogin leaky_platform enrolled_world)"
  have r: "fst (disableBiometricLogin leaky_platform enrolled_world) = Inr ()"
    by (simp add: disableBiometricLogin_result)
  then have h: "disableBiometricLogin leaky_platform enrolled_world = (Inr (), ?w1)"
    by (metis prod.collapse)
  have s: "secure_store ?w1 STORED_EMAIL_KEY = Some ''a@b.com''"
          "secure_store ?w1 STORED_PASSWORD_KEY = Some ''secret1''"
    by (simp_all add: disableBiometricLogin_store clearedStore_def enrolled_world_def)
  have a: "fst (isBiometricAvailable leaky_platform ?w1) = Inr True"
    by (simp add: isBiometricAvailable_eq)
  show ?thesis
    using r s a disable_then_authenticate[OF h, of leaky_platform None] by simp
qed

text \<open>
  On a device without biometric hardware the failure after a completed
  \<^verbatim>\<open>disableBiometricLogin()\<close> is the one of the availability check, which comes first,
  and not the one of the preference check.
\<close>

theorem disable_unavailable_counterexample:
  "fst (disableBiometricLogin no_hardware_platform enrolled_world) = Inr ()
   \<and> fst (authenticateWithBiometrics no_hardware_platform None
            (snd (disableBiometricLogin no_hardware_platform enrolled_world))) =
       Inr \<lparr>success = False,
            error = Some ''Biometric authentication is not available on this device'',
            credentials = None\<rparr>"
  by (simp add: disableBiometricLogin_result authenticate_not_available)

text \<open>
  C8. \<^verbatim>\<open>disableBiometricLogin()\<close> is idempotent. For every store state and every
  platform, a second call right after the first has the outcome of the first and leaves
  the store as the first left it. Where the delete of the enabled key does not throw, both
  calls complete without error and the preference is cleared; where no delete throws (the
  store contract: delete succeeds even on an absent key), the end state is the store with
  the enabled key, the email and the password all erased.
\<close>

theorem disable_idempotent:
  "fst (disableBiometricLogin pf (snd (disableBiometricLogin pf w))) =
     fst (disableBiometricLogin pf w)
   \<and> secure_store (snd (disableBiometricLogin pf (snd (disableBiometricLogin pf w)))) =
     secure_store (snd (disableBiometricLogin pf w))
   \<and> (del_fault pf BIOMETRIC_ENABLED_KEY = None \<longrightarrow>
        fst (disableBiometricLogin pf w) = Inr ()
        \<and> secure_store (snd (disableBiometricLogin pf w)) BIOMETRIC_ENABLED_KEY = None)
   \<and> (del_fault pf BIOMETRIC_ENABLED_KEY = None \<and> del_fault pf STORED_EMAIL_KEY = None
        \<and> del_fault pf STORED_PASSWORD_KEY = None \<longrightarrow>
        secure_store (snd (disableBiometricLogin pf w)) =
          (secure_store w)(BIOMETRIC_ENABLED_KEY := None, STORED_EMAIL_KEY := None,
                           STORED_PASSWORD_KEY := None))"
  by (simp add: disableBiometricLogin_result disableBiometricLogin_store
        clearedStore_after_delete clearedStore_enabled)
     (simp add: clearedStore_def)

theorem disable_idempotent_witness:
  "fst (disableBiometricLogin working_platform enrolled_world) = Inr ()
   \<and> fst (disableBiometricLogin working_platform
            (snd (disableBiometricLogin working_platform enrolled_world))) = Inr ()
   \<and> secure_store (snd (disableBiometricLogin working_platform
            (snd (disableBiometricLogin working_platform enrolled_world)))) = Map.empty
   \<and> secure_store (snd (disableBiometricLogin working_platform enrolled_world)) = Map.empty"
  using disable_idempotent[of working_platform enrolled_world]
  by (simp add: enrolled_world_def)

subsection \<open>Availability\<close>

text \<open>
  C3. When \<^verbatim>\<open>isBiometricAvailable()\<close> is false, \<^verbatim>\<open>authenticateWithBiometrics()\<close>
  returns the failure "Biometric authentication is not available on this device", for
  every store state and prompt message. The world after the call is the world before it
  with the two probes (hardware, enrolment) appended to the trace: the store is neither
  read nor written and the platform prompt is not invoked.
\<close>

theorem authenticate_unavailable:
  assumes "fst (isBiometricAvailable pf w) = Inr False"
  shows "authenticateWithBiometrics pf msg w =
           (Inr \<lparr>success = False,
                 error = Some ''Biometric authentication is not available on this device'',
                 credentials = None\<rparr>,
            w\<lparr>trace := trace w @ [HasHardwareCall, IsEnrolledCall]\<rparr>)"
  using assms
  by (simp add: authenticateWithBiometrics_def tryCatch_def awaitA_def isBiometricAvailable_eq
        returnA_def logE_def)

theorem authenticate_unavailable_witness:
  "fst (isBiometricAvailable no_hardware_platform enrolled_world) = Inr False
   \<and> authenticateWithBiometrics no_hardware_platform None enrolled_world =
       (Inr \<lparr>success = False,
             error = Some ''Biometric authentication is not available on this device'',
             credentials = None\<rparr>,
        enrolled_world\<lparr>trace := [HasHardwareCall, IsEnrolledCall]\<rparr>)"
proof -
  have h: "fst (isBiometricAvailable no_hardware_platform enrolled_world) = Inr False"
    by (simp add: isBiometricAvailable_eq)
  show ?thesis
    using h authenticate_unavailable[OF h, of None] by (simp add: enrolled_world_def)
qed

text \<open>
  C4. \<^verbatim>\<open>canUseBiometricLogin()\<close> returns the conjunction of what
  \<^verbatim>\<open>isBiometricAvailable()\<close>, \<^verbatim>\<open>isBiometricEnabled()\<close> and
  \<^verbatim>\<open>hasStoredCredentials()\<close> return in the same world; none of the three throws. In
  particular it returns false whenever \<^verbatim>\<open>isBiometricAvailable()\<close> is false, whatever
  the store holds.
\<close>

theorem canUseBiometricLogin_is_conjunction:
  "\<exists>a e c. fst (isBiometricAvailable pf w) = Inr a
         \<and> fst (isBiometricEnabled pf w) = Inr e
         \<and> fst (hasStoredCredentials pf w) = Inr c
         \<and> fst (canUseBiometricLogin pf w) = Inr (a \<and> e \<and> c)
         \<and> (\<not> a \<longrightarrow> fst (canUseBiometricLogin pf w) = Inr False)"
  by (auto simp: canUseBiometricLogin_eq isBiometricAvailable_eq isBiometricEnabled_eq
        hasStoredCredentials_eq)

theorem canUseBiometricLogin_is_conjunction_witness:
  "fst (isBiometricAvailable no_hardware_platform enrolled_world) = Inr False
   \<and> fst (isBiometricEnabled no_hardware_platform enrolled_world) = Inr True
   \<and> fst (hasStoredCredentials no_hardware_platform enrolled_world) = Inr True
   \<and> fst (canUseBiometricLogin no_hardware_platform enrolled_world) = Inr False"
proof -
  have a: "fst (isBiometricAvailable no_hardware_platform enrolled_world) = Inr False"
    by (simp add: isBiometricAvailable_eq)
  have e: "fst (isBiometricEnabled no_hardware_platform enrolled_world) = Inr True"
    by (simp add: isBiometricEnabled_eq enrolled_world_def)
  have c: "fst (hasStoredCredentials no_hardware_platform enrolled_world) = Inr True"
    by (simp add: hasStoredCredentials_eq storedPair_def enrolled_world_def)
  show ?thesis
    using a e c canUseBiometricLogin_is_conjunction[of no_hardware_platform enrolled_world]
    by auto
qed

subsection \<open>The authentication flow\<close>

text \<open>
  C5. The claim is that the stored email and password are read only after the prompt has
  reported success, as the comment on \<^verbatim>\<open>getStoredCredentials\<close> says ("only after
  successful biometric auth"). The code calls \<^verbatim>\<open>getStoredCredentials()\<close> before
  \<^verbatim>\<open>LocalAuthentication.authenticateAsync\<close>: on an enrolled installation whose prompt
  then rejects the finger, the trace shows both credential reads ahead of the prompt, and
  the reads have happened although the prompt never succeeds.
\<close>

theorem authenticate_reads_credentials_before_prompt:
  "authenticateWithBiometrics rejecting_platform None enrolled_world =
     (Inr \<lparr>success = False, error = Some ''Authentication failed. Please try again.'',
           credentials = None\<rparr>,
      enrolled_world\<lparr>trace :=
        [HasHardwareCall, IsEnrolledCall, GetItem BIOMETRIC_ENABLED_KEY,
         GetItem STORED_EMAIL_KEY, GetItem STORED_PASSWORD_KEY, SupportedTypesCall,
         AuthenticateCall \<lparr>promptMessage = ''Login to MediVault with Fingerprint'',
                           cancelLabel = ''Cancel'', disableDeviceFallback = False,
                           fallbackLabel = ''Use Password''\<rparr>]\<rparr>)"
proof -
  have sp: "storedPair rejecting_platform enrolled_world =
              Some \<lparr>cred_email = ''a@b.com'', cred_password = ''secret1''\<rparr>"
    by (simp add: storedPair_def enrolled_world_def rejecting_platform_def)
  have en: "secure_store enrolled_world BIOMETRIC_ENABLED_KEY = Some ''true''"
    by (simp add: enrolled_world_def)
  have n: "typeName rejecting_platform = ''Fingerprint''"
    by (simp add: typeName_def getBiometricTypeName_def awaitA_def
          getSupportedBiometricTypes_eq returnA_def rejecting_platform_def)
  show ?thesis
    using authenticate_prompted[OF _ _ _ en sp, of None]
    by (simp add: rejecting_platform_def promptOptions_def n[unfolded rejecting_platform_def]
          credentialReads_def orElse_def promptErrorMessage_def enrolled_world_def)
qed

text \<open>
  C10, as amended. \<^verbatim>\<open>authenticateWithBiometrics\<close> returns a result and does not throw,
  for every prompt message, every world and every platform behaviour in which the prompt
  does not reject with \<^verbatim>\<open>null\<close> or \<^verbatim>\<open>undefined\<close>: each sensor query and store read
  may answer or throw any value, and the prompt may answer, or throw any object. A result
  with \<^verbatim>\<open>success\<close> true carries credentials, and a result with \<^verbatim>\<open>success\<close> false
  carries a non-empty error message.
\<close>

theorem authenticate_total:
  assumes "auth_response pf \<noteq> Inl Nullish"
  shows "\<exists>r. fst (authenticateWithBiometrics pf msg w) = Inr r
       \<and> (success r \<longrightarrow> credentials r \<noteq> None)
       \<and> (\<not> success r \<longrightarrow> (\<exists>m. error r = Some m \<and> m \<noteq> []))"
proof (cases "hw_response pf = Inr True \<and> enrolled_response pf = Inr True")
  case False
  then show ?thesis by (simp add: authenticate_not_available)
next
  case avail: True
  show ?thesis
  proof (cases "get_fault pf BIOMETRIC_ENABLED_KEY = None
                \<and> secure_store w BIOMETRIC_ENABLED_KEY = Some ''true''")
    case False
    with avail show ?thesis by (simp add: authenticate_not_enabled)
  next
    case enabled: True
    show ?thesis
    proof (cases "storedPair pf w")
      case None
      with avail enabled show ?thesis by (simp add: authenticate_no_credentials)
    next
      case (Some c)
      with avail enabled assms show ?thesis
        by (simp add: authenticate_prompted orElse_nonempty promptErrorMessage_nonempty
              split: sum.splits LocalAuthenticationResult.splits js_error.splits)
    qed
  qed
qed

text \<open>The witness is a prompt that throws an object without a message: the
  \<^verbatim>\<open>catch\<close> block answers with its fallback text.\<close>

theorem authenticate_total_witness:
  "auth_response silent_rejecting_platform \<noteq> Inl Nullish
   \<and> fst (authenticateWithBiometrics silent_rejecting_platform None enrolled_world) =
       Inr \<lparr>success = False, error = Some ''An unexpected error occurred'',
            credentials = None\<rparr>"
proof -
  have h: "auth_response silent_rejecting_platform \<noteq> Inl Nullish"
    by (simp add: silent_rejecting_platform_def)
  have sp: "storedPair silent_rejecting_platform enrolled_world =
              Some \<lparr>cred_email = ''a@b.com'', cred_password = ''secret1''\<rparr>"
    by (simp add: storedPair_def enrolled_world_def silent_rejecting_platform_def)
  have en: "secure_store enrolled_world BIOMETRIC_ENABLED_KEY = Some ''true''"
    by (simp add: enrolled_world_def)
  have r: "fst (authenticateWithBiometrics silent_rejecting_platform None enrolled_world) =
       Inr \<lparr>success = False, error = Some ''An unexpected error occurred'',
            credentials = None\<rparr>"
    using authenticate_prompted[OF _ _ _ en sp, of None]
    by (simp add: silent_rejecting_platform_def orElse_def)
  show ?thesis
    using h r authenticate_total[OF h, of None enrolled_world] by simp
qed

text \<open>
  When the prompt rejects with \<^verbatim>\<open>null\<close>, the \<^verbatim>\<open>catch\<close> block's \<^verbatim>\<open>error.message\<close>
  throws, and the \<^verbatim>\<open>TypeError\<close> reaches the caller.
\<close>

theorem authenticate_null_rejection_counterexample:
  "fst (authenticateWithBiometrics null_rejecting_platform None enrolled_world) =
     Inl (typeError ''message'')"
proof -
  have sp: "storedPair null_rejecting_platform enrolled_world =
              Some \<lparr>cred_email = ''a@b.com'', cred_password = ''secret1''\<rparr>"
    by (simp add: storedPair_def enrolled_world_def null_rejecting_platform_def)
  have en: "secure_store enrolled_world BIOMETRIC_ENABLED_KEY = Some ''true''"
    by (simp add: enrolled_world_def)
  show ?thesis
    using authenticate_prompted[OF _ _ _ en sp, of None]
    by (simp add: null_rejecting_platform_def)
qed

subsection \<open>Supported modalities\<close>

text \<open>
  C9. When the platform query for the supported types throws,
  \<^verbatim>\<open>getSupportedBiometricTypes()\<close> returns no modality: the set of modalities
  (fingerprint, facial, iris) in the list it returns is empty. The list is \<^verbatim>\<open>['none']\<close>,
  the marker of the code for "no modality", and the query is the only call made.
\<close>

theorem supported_types_on_failure:
  assumes "types_response pf = Inl e"
  shows "\<exists>r. getSupportedBiometricTypes pf w = (Inr r, logE SupportedTypesCall w)
           \<and> r = [NoneType]
           \<and> set r \<inter> {Fingerprint, Facial, Iris} = {}"
  using assms by (simp add: getSupportedBiometricTypes_eq)

theorem supported_types_on_failure_witness:
  "types_response types_failing_platform = Inl (newError ''query failed'')
   \<and> fst (getSupportedBiometricTypes types_failing_platform empty_world) = Inr [NoneType]
   \<and> set [NoneType] \<inter> {Fingerprint, Facial, Iris} = {}"
proof -
  have h: "types_response types_failing_platform = Inl (newError ''query failed'')"
    by (simp add: types_failing_platform_def)
  show ?thesis using h supported_types_on_failure[OF h, of empty_world] by auto
qed

subsection \<open>Sign-up and Google sign-in\<close>

text \<open>
  C6, as amended. When the account creation succeeds and the update of a given, non-empty
  display name throws, \<^verbatim>\<open>signUp\<close> does not return the created user: it throws an
  \<^verbatim>\<open>Error\<close> made from what \<^verbatim>\<open>getAuthErrorMessage\<close> maps the code of the update's
  failure to (and the \<^verbatim>\<open>TypeError\<close> of reading \<^verbatim>\<open>error.code\<close> when the update
  threw \<^verbatim>\<open>null\<close> or \<^verbatim>\<open>undefined\<close>). The account creation is not rolled back: the
  backend calls of \<^verbatim>\<open>signUp\<close> are the creation and the update, and nothing after them.
\<close>

theorem signUp_update_failure:
  assumes "createUser_response fb (su_email d) (su_password d) = Inr u"
    and "su_displayName d = Some name" and "name \<noteq> []"
    and "updateProfile_response fb u name = Inl e"
  shows "signUp fb d w =
           (Inl (case codeOf e of
                   Inl t \<Rightarrow> t
                 | Inr c \<Rightarrow> newErrorOf (getAuthErrorMessage c)),
            w\<lparr>trace := trace w @ [CreateUserCall (su_email d) (su_password d),
                                   UpdateProfileCall (user_uid u) name]\<rparr>)"
  using assms
  by (cases "codeOf e")
     (simp_all add: signUp_def tryCatch_def awaitA_def FB_createUserWithEmailAndPassword_def
        FB_updateProfile_def truthy_def throwA_def logE_def readCode_def)

theorem signUp_update_failure_witness:
  "signUp flaky_backend sample_signup empty_world =
     (Inl (newError ''Network error. Please check your connection.''),
      \<lparr>secure_store = Map.empty,
       trace = [CreateUserCall ''a@b.com'' ''secret1'', UpdateProfileCall ''u1'' ''Ann'']\<rparr>)"
proof -
  have c: "createUser_response flaky_backend (su_email sample_signup) (su_password sample_signup)
             = Inr sample_user"
    by (simp add: flaky_backend_def)
  have n: "su_displayName sample_signup = Some ''Ann''" by (simp add: sample_signup_def)
  have u: "updateProfile_response flaky_backend sample_user ''Ann'' =
             Inl (JsError (Some ''Firebase: Error (auth/network-request-failed).'')
                          (Some ''auth/network-request-failed''))"
    by (simp add: flaky_backend_def)
  show ?thesis
    using signUp_update_failure[OF c n _ u, of empty_world]
    by (simp add: network_failure_message sample_signup_def sample_user_def empty_world_def)
qed

text \<open>The account is created, the update loses the connection, and \<^verbatim>\<open>signUp\<close>
  throws.\<close>

theorem signUp_not_best_effort_counterexample:
  "createUser_response flaky_backend (su_email sample_signup) (su_password sample_signup)
     = Inr sample_user
   \<and> fst (signUp flaky_backend sample_signup empty_world) =
       Inl (newError ''Network error. Please check your connection.'')"
  by (simp add: signUp_def tryCatch_def awaitA_def FB_createUserWithEmailAndPassword_def
        FB_updateProfile_def truthy_def throwA_def flaky_backend_def sample_signup_def
        readCode_def network_failure_message)

text \<open>
  C7. When \<^verbatim>\<open>require\<close> of the Google module throws at load time, the load makes no call
  to the module, \<^verbatim>\<open>isGoogleSignInAvailable()\<close> returns false, and every call of
  \<^verbatim>\<open>signInWithGoogle()\<close> throws "Google Sign-In is not available. Please use a
  development build instead of Expo Go." and leaves the world as it was: no play-services
  check, no token request, no credential sign-in.
\<close>

theorem google_module_absent:
  "\<not> isGoogleSignInAvailable (fst (loadGoogleSignIn None w0))
   \<and> snd (loadGoogleSignIn None w0) = w0
   \<and> signInWithGoogle (fst (loadGoogleSignIn None w0)) fb w =
       (Inl (newError ''Google Sign-In is not available. Please use a development build instead of Expo Go.''), w)"
  by (simp add: loadGoogleSignIn_def isGoogleSignInAvailable_def signInWithGoogle_def throwA_def)

theorem google_module_absent_witness:
  "\<not> isGoogleSignInAvailable (fst (loadGoogleSignIn None empty_world))
   \<and> signInWithGoogle (fst (loadGoogleSignIn None empty_world)) flaky_backend enrolled_world =
       (Inl (newError ''Google Sign-In is not available. Please use a development build instead of Expo Go.''),
        enrolled_world)"
  using google_module_absent[of empty_world flaky_backend enrolled_world] by simp

end
